theory Spec2Isabelle
  imports Main "HOL-Library.Word" "HOL-Library.Code_Target_Nat"
begin

section \<open>Data model of main.go\<close>

text \<open>
  The program keeps one process-wide table \<^verbatim>\<open>activeTimers map[int64]*Timer\<close>, guarded
  (in part) by the mutex \<^verbatim>\<open>mu\<close>, and one append-only file \<^verbatim>\<open>timers.log\<close>.
  The table holds pointers, so the model has an explicit heap of Timer objects:
  \<^verbatim>\<open>&Timer{}\<close> takes the next unused address.
\<close>

type_synonym chat_id = "64 word"
type_synonym addr = nat

text \<open>
  A \<^verbatim>\<open>time.Time\<close> is modelled by the civil fields that \<^verbatim>\<open>Format\<close> reads from it
  (\<^verbatim>\<open>t.Date()\<close> and \<^verbatim>\<open>t.Clock()\<close>). The zero value of \<^verbatim>\<open>time.Time\<close> is
  January 1, year 1, 00:00:00 UTC.
\<close>

record Time =
  t_year :: int
  t_month :: int
  t_day :: int
  t_hour :: int
  t_minute :: int
  t_second :: int

definition zeroTime :: Time where
  "zeroTime = \<lparr>t_year = 1, t_month = 1, t_day = 1, t_hour = 0, t_minute = 0, t_second = 0\<rparr>"

text \<open>A \<^verbatim>\<open>time.Duration\<close> is a signed count of nanoseconds.\<close>

type_synonym duration = int

definition Nanosecond :: nat where "Nanosecond = 1"
definition Microsecond :: nat where "Microsecond = 1000 * Nanosecond"
definition Millisecond :: nat where "Millisecond = 1000 * Microsecond"
definition Second :: nat where "Second = 1000 * Millisecond"
definition Minute :: nat where "Minute = 60 * Second"
definition Hour :: nat where "Hour = 60 * Minute"

record Timer =
  Name :: string
  StartTime :: Time
  Duration :: duration
  StopTime :: "Time option"

text \<open>\<^verbatim>\<open>&Timer{}\<close>: every field has its zero value.\<close>

definition emptyTimer :: Timer where
  "emptyTimer = \<lparr>Name = [], StartTime = zeroTime, Duration = 0, StopTime = None\<rparr>"

text \<open>
  What \<^verbatim>\<open>bot.Send\<close> is given. The wording and number formatting of the texts are
  transport glue; a constructor stands for one text and carries the values put into it.
\<close>

datatype message =
    MsgMainMenu
  | MsgLogsEmpty
  | MsgLogs string
  | MsgUseButtons
  | MsgAskName
  | MsgAskMinutes
  | MsgBadMinutes
  | MsgAskConfirm string duration
  | MsgNotConfigured
  | MsgStarted string duration
  | MsgNoActiveTimer
  | MsgStopped string bool

text \<open>The two \<^verbatim>\<open>log.Println\<close> calls of \<^verbatim>\<open>logTimer\<close> (the diagnostic channel).\<close>

datatype diagnostic = DiagOpenError | DiagWriteError

text \<open>The goroutine started by \<^verbatim>\<open>startTimer\<close>: its two arguments, while it sleeps.\<close>

record countdown =
  cd_chat :: chat_id
  cd_sleep :: duration

record world =
  activeTimers :: "chat_id \<rightharpoonup> addr"
  heap :: "addr \<Rightarrow> Timer"
  nextAddr :: addr
  logfile :: "string option"
  open_files :: nat
  diag :: "diagnostic list"
  sent :: "(chat_id \<times> message) list"
  pending :: "countdown list"

definition init_world :: world where
  "init_world = \<lparr>activeTimers = Map.empty, heap = (\<lambda>_. emptyTimer), nextAddr = 0,
     logfile = None, open_files = 0, diag = [], sent = [], pending = []\<rparr>"

text \<open>
  What the surroundings decide at one call: the reading of \<^verbatim>\<open>time.Now()\<close>, and how
  opening, writing and reading the log file go. \<^verbatim>\<open>WriteFails n\<close>: the write returns an
  error after \<open>n\<close> bytes.
\<close>

datatype io_outcome = IO_OK | OpenFails | WriteFails nat

record env =
  now :: Time
  log_io :: io_outcome
  read_ok :: bool

definition Send :: "chat_id \<Rightarrow> message \<Rightarrow> world \<Rightarrow> world" where
  "Send c m w = w\<lparr>sent := sent w @ [(c, m)]\<rparr>"

section \<open>The Event Log Sink: \<^verbatim>\<open>logTimer\<close>\<close>

subsection \<open>\<^verbatim>\<open>Time.Format("2006-01-02 15:04:05")\<close>\<close>

definition digit_char :: "nat \<Rightarrow> char" where
  "digit_char d = char_of (48 + d)"

fun decimal :: "nat \<Rightarrow> string" where
  "decimal n = (if n < 10 then [digit_char n] else decimal (n div 10) @ [digit_char (n mod 10)])"

declare decimal.simps [simp del]

text \<open>
  \<^verbatim>\<open>appendInt(b, x, width)\<close> of package time: a minus sign for a negative value, then
  the decimal digits padded with zeros on the left to \<open>width\<close>.
\<close>

definition appendInt :: "int \<Rightarrow> nat \<Rightarrow> string" where
  "appendInt x width =
     (let ds = decimal (nat \<bar>x\<bar>)
      in (if x < 0 then ''-'' else []) @ replicate (width - length ds) (CHR ''0'') @ ds)"

definition Format :: "Time \<Rightarrow> string" where
  "Format t = appendInt (t_year t) 4 @ ''-'' @ appendInt (t_month t) 2 @ ''-'' @
     appendInt (t_day t) 2 @ '' '' @ appendInt (t_hour t) 2 @ '':'' @
     appendInt (t_minute t) 2 @ '':'' @ appendInt (t_second t) 2"

subsection \<open>The texts of the log line (UTF-8 bytes)\<close>

definition txt_Nazvanie :: string where
  "txt_Nazvanie = [CHR 0xD0, CHR 0x9D, CHR 0xD0, CHR 0xB0, CHR 0xD0, CHR 0xB7, CHR 0xD0, CHR 0xB2,
     CHR 0xD0, CHR 0xB0, CHR 0xD0, CHR 0xBD, CHR 0xD0, CHR 0xB8, CHR 0xD0, CHR 0xB5]"

definition txt_Nachalo :: string where
  "txt_Nachalo = [CHR 0xD0, CHR 0x9D, CHR 0xD0, CHR 0xB0, CHR 0xD1, CHR 0x87, CHR 0xD0, CHR 0xB0,
     CHR 0xD0, CHR 0xBB, CHR 0xD0, CHR 0xBE]"

definition txt_Okonchanie :: string where
  "txt_Okonchanie = [CHR 0xD0, CHR 0x9E, CHR 0xD0, CHR 0xBA, CHR 0xD0, CHR 0xBE, CHR 0xD0, CHR 0xBD,
     CHR 0xD1, CHR 0x87, CHR 0xD0, CHR 0xB0, CHR 0xD0, CHR 0xBD, CHR 0xD0, CHR 0xB8, CHR 0xD0, CHR 0xB5]"

text \<open>The marker of a stop time not yet known (``in progress'').\<close>

definition txt_V_processe :: string where
  "txt_V_processe = [CHR 0xD0, CHR 0x92, CHR 0x20, CHR 0xD0, CHR 0xBF, CHR 0xD1, CHR 0x80, CHR 0xD0,
     CHR 0xBE, CHR 0xD1, CHR 0x86, CHR 0xD0, CHR 0xB5, CHR 0xD1, CHR 0x81, CHR 0xD1, CHR 0x81,
     CHR 0xD0, CHR 0xB5]"

text \<open>The two actions: start and stop.\<close>

definition act_Zapusk :: string where
  "act_Zapusk = [CHR 0xD0, CHR 0x97, CHR 0xD0, CHR 0xB0, CHR 0xD0, CHR 0xBF, CHR 0xD1, CHR 0x83,
     CHR 0xD1, CHR 0x81, CHR 0xD0, CHR 0xBA]"

definition act_Ostanovlen :: string where
  "act_Ostanovlen = [CHR 0xD0, CHR 0x9E, CHR 0xD1, CHR 0x81, CHR 0xD1, CHR 0x82, CHR 0xD0, CHR 0xB0,
     CHR 0xD0, CHR 0xBD, CHR 0xD0, CHR 0xBE, CHR 0xD0, CHR 0xB2, CHR 0xD0, CHR 0xBB, CHR 0xD0, CHR 0xB5,
     CHR 0xD0, CHR 0xBD]"

definition newline :: char where
  "newline = CHR 0x0A"

text \<open>The \<^verbatim>\<open>fmt.Sprintf\<close> of \<^verbatim>\<open>logTimer\<close>.\<close>

definition log_entry :: "Timer \<Rightarrow> string \<Rightarrow> string" where
  "log_entry timer action =
     action @ '' | '' @ txt_Nazvanie @ '': '' @ Name timer @
     '' | '' @ txt_Nachalo @ '': '' @ Format (StartTime timer) @
     '' | '' @ txt_Okonchanie @ '': '' @
     (case StopTime timer of Some t \<Rightarrow> Format t | None \<Rightarrow> txt_V_processe) @ [newline]"

subsection \<open>The file\<close>

text \<open>
  \<^verbatim>\<open>os.OpenFile(logFile, flags, 0644)\<close>: on success one more descriptor is open and,
  with \<^verbatim>\<open>O_CREATE\<close>, a missing file exists and is empty. \<^verbatim>\<open>WriteString\<close> on a
  descriptor opened with \<^verbatim>\<open>O_APPEND\<close> writes at the end of the file; without it, a
  fresh descriptor writes from offset 0 over what is there.
\<close>

datatype open_flag = O_APPEND | O_CREATE | O_WRONLY

datatype fhandle = FHandle "open_flag list"

definition OpenFile :: "env \<Rightarrow> open_flag list \<Rightarrow> world \<Rightarrow> fhandle option \<times> world" where
  "OpenFile e flags w =
     (if log_io e = OpenFails then (None, w)
      else case logfile w of
        Some _ \<Rightarrow> (Some (FHandle flags), w\<lparr>open_files := Suc (open_files w)\<rparr>)
      | None \<Rightarrow>
          if O_CREATE \<in> set flags
          then (Some (FHandle flags), w\<lparr>logfile := Some [], open_files := Suc (open_files w)\<rparr>)
          else (None, w))"

definition write_bytes :: "fhandle \<Rightarrow> string \<Rightarrow> string \<Rightarrow> string" where
  "write_bytes f bytes content =
     (case f of FHandle flags \<Rightarrow>
        if O_APPEND \<in> set flags then content @ bytes
        else bytes @ drop (length bytes) content)"

definition WriteString :: "env \<Rightarrow> fhandle \<Rightarrow> string \<Rightarrow> world \<Rightarrow> bool \<times> world" where
  "WriteString e f s w =
     (case log_io e of
        WriteFails n \<Rightarrow>
          (False, w\<lparr>logfile := map_option (write_bytes f (take n s)) (logfile w)\<rparr>)
      | _ \<Rightarrow> (True, w\<lparr>logfile := map_option (write_bytes f s) (logfile w)\<rparr>))"

definition Close :: "fhandle \<Rightarrow> world \<Rightarrow> world" where
  "Close f w = w\<lparr>open_files := open_files w - 1\<rparr>"

definition Println :: "diagnostic \<Rightarrow> world \<Rightarrow> world" where
  "Println d w = w\<lparr>diag := diag w @ [d]\<rparr>"

text \<open>
  \<^verbatim>\<open>logTimer(timer, action)\<close>. The \<^verbatim>\<open>defer file.Close()\<close> runs on both ways out of
  the write.
\<close>

definition logTimer :: "env \<Rightarrow> Timer \<Rightarrow> string \<Rightarrow> world \<Rightarrow> world" where
  "logTimer e timer action w =
     (let entry = log_entry timer action
      in case OpenFile e [O_APPEND, O_CREATE, O_WRONLY] w of
        (None, w1) \<Rightarrow> Println DiagOpenError w1
      | (Some fh, w1) \<Rightarrow>
          (case WriteString e fh entry w1 of
             (True, w2) \<Rightarrow> Close fh w2
           | (False, w2) \<Rightarrow> Close fh (Println DiagWriteError w2)))"

section \<open>\<^verbatim>\<open>time.ParseDuration\<close>\<close>

text \<open>
  \<^verbatim>\<open>handleTimerSetup\<close> parses the text with \<^verbatim>\<open>time.ParseDuration(input + "m")\<close> of
  Go's standard library, embedded here with its helpers \<^verbatim>\<open>leadingInt\<close> and
  \<^verbatim>\<open>leadingFraction\<close>. Its \<^verbatim>\<open>uint64\<close> values are natural numbers with the
  overflow checks of the library written out. The one floating-point expression,
  \<^verbatim>\<open>uint64(float64(f) * (float64(unit) / scale))\<close>, is the parameter \<open>fm f unit scale\<close>;
  the library evaluates it only when the text has a fraction with a nonzero digit.
  An error return is \<open>None\<close>.
\<close>

type_synonym fracmul = "nat \<Rightarrow> nat \<Rightarrow> nat \<Rightarrow> nat"

definition is_digit :: "char \<Rightarrow> bool" where
  "is_digit c \<longleftrightarrow> (48::nat) \<le> of_char c \<and> (of_char c :: nat) \<le> 57"

fun leadingInt_from :: "nat \<Rightarrow> string \<Rightarrow> (nat \<times> string) option" where
  "leadingInt_from x [] = Some (x, [])"
| "leadingInt_from x (c # s) =
     (if \<not> is_digit c then Some (x, c # s)
      else if x > 2 ^ 63 div 10 then None
      else let x' = x * 10 + of_char c - 48
           in if x' > 2 ^ 63 then None else leadingInt_from x' s)"

definition leadingInt :: "string \<Rightarrow> (nat \<times> string) option" where
  "leadingInt s = leadingInt_from 0 s"

fun leadingFraction_from :: "nat \<Rightarrow> nat \<Rightarrow> bool \<Rightarrow> string \<Rightarrow> nat \<times> nat \<times> string" where
  "leadingFraction_from x scale overflow [] = (x, scale, [])"
| "leadingFraction_from x scale overflow (c # s) =
     (if \<not> is_digit c then (x, scale, c # s)
      else if overflow then leadingFraction_from x scale overflow s
      else if x > (2 ^ 63 - 1) div 10 then leadingFraction_from x scale True s
      else let y = x * 10 + of_char c - 48
           in if y > 2 ^ 63 then leadingFraction_from x scale True s
              else leadingFraction_from y (scale * 10) overflow s)"

definition leadingFraction :: "string \<Rightarrow> nat \<times> nat \<times> string" where
  "leadingFraction s = leadingFraction_from 0 1 False s"

definition unitMap :: "string \<Rightarrow> nat option" where
  "unitMap u =
     (if u = ''ns'' then Some Nanosecond
      else if u = ''us'' then Some Microsecond
      else if u = [CHR 0xC2, CHR 0xB5, CHR ''s''] then Some Microsecond
      else if u = [CHR 0xCE, CHR 0xBC, CHR ''s''] then Some Microsecond
      else if u = ''ms'' then Some Millisecond
      else if u = ''s'' then Some Second
      else if u = ''m'' then Some Minute
      else if u = ''h'' then Some Hour
      else None)"

definition starts_number :: "char \<Rightarrow> bool" where
  "starts_number c \<longleftrightarrow> c = CHR ''.'' \<or> is_digit c"

text \<open>
  One round of the loop of \<^verbatim>\<open>ParseDuration\<close>: a number, an optional fraction and a
  unit. It returns the value of the part in nanoseconds and the rest of the text.
\<close>

definition parse_part :: "fracmul \<Rightarrow> string \<Rightarrow> (nat \<times> string) option" where
  "parse_part fm s =
     (if \<not> starts_number (hd s) then None
      else case leadingInt s of
        None \<Rightarrow> None
      | Some (v, s1) \<Rightarrow>
          (case (if s1 \<noteq> [] \<and> hd s1 = CHR ''.''
                 then (case leadingFraction (tl s1) of
                         (f, scale, r) \<Rightarrow> (f, scale, r, length (tl s1) \<noteq> length r))
                 else (0, 1, s1, False)) of
             (f, scale, s2, post) \<Rightarrow>
               if length s = length s1 \<and> \<not> post then None
               else let u = takeWhile (\<lambda>c. \<not> starts_number c) s2;
                        s3 = dropWhile (\<lambda>c. \<not> starts_number c) s2
                    in if u = [] then None
                       else (case unitMap u of
                         None \<Rightarrow> None
                       | Some unit \<Rightarrow>
                           if v > 2 ^ 63 div unit then None
                           else if f > 0
                             then let v' = (v * unit + fm f unit scale) mod 2 ^ 64
                                  in if v' > 2 ^ 63 then None else Some (v', s3)
                             else Some (v * unit, s3))))"

lemma leadingInt_from_length:
  "leadingInt_from x s = Some (v, r) \<Longrightarrow> length r \<le> length s"
  by (induction x s rule: leadingInt_from.induct) (auto simp: Let_def split: if_splits)

lemma leadingFraction_from_length:
  "leadingFraction_from x sc ov s = (f, sc', r) \<Longrightarrow> length r \<le> length s"
  by (induction x sc ov s rule: leadingFraction_from.induct) (auto simp: Let_def split: if_splits)

lemma parse_part_shorter:
  assumes "parse_part fm s = Some (v, r)"
  shows "length r < length s"
proof -
  from assms obtain v0 s1 where li: "leadingInt s = Some (v0, s1)"
    by (auto simp: parse_part_def split: if_splits option.splits)
  then have l1: "length s1 \<le> length s"
    by (simp add: leadingInt_def leadingInt_from_length)
  obtain s2 where s2: "s2 = s1 \<or> (s1 \<noteq> [] \<and> (\<exists>f sc. leadingFraction (tl s1) = (f, sc, s2)))"
    and u: "takeWhile (\<lambda>c. \<not> starts_number c) s2 \<noteq> []"
    and r: "r = dropWhile (\<lambda>c. \<not> starts_number c) s2"
    using assms li
    by (auto simp: parse_part_def Let_def split: if_splits option.splits prod.splits)
  from s2 have l2: "length s2 \<le> length s1"
  proof
    assume "s2 = s1" then show ?thesis by simp
  next
    assume "s1 \<noteq> [] \<and> (\<exists>f sc. leadingFraction (tl s1) = (f, sc, s2))"
    then obtain f sc where "leadingFraction_from 0 1 False (tl s1) = (f, sc, s2)"
      by (auto simp: leadingFraction_def)
    then have "length s2 \<le> length (tl s1)" by (rule leadingFraction_from_length)
    then show ?thesis by simp
  qed
  have "length (takeWhile (\<lambda>c. \<not> starts_number c) s2) + length r = length s2"
    unfolding r by (metis length_append takeWhile_dropWhile_id)
  with u have "length r < length s2" by (cases "takeWhile (\<lambda>c. \<not> starts_number c) s2") auto
  with l1 l2 show ?thesis by linarith
qed

function parse_parts :: "fracmul \<Rightarrow> nat \<Rightarrow> string \<Rightarrow> nat option" where
  "parse_parts fm d s =
     (if s = [] then Some d
      else case parse_part fm s of
        None \<Rightarrow> None
      | Some (v, r) \<Rightarrow>
          let d' = (d + v) mod 2 ^ 64
          in if d' > 2 ^ 63 then None else parse_parts fm d' r)"
  by pat_completeness auto
termination
  by (relation "measure (\<lambda>(fm, d, s). length s)") (auto dest: parse_part_shorter)

declare parse_parts.simps [simp del]

definition ParseDuration :: "fracmul \<Rightarrow> string \<Rightarrow> duration option" where
  "ParseDuration fm orig =
     (let (neg, s) =
            (case orig of
               [] \<Rightarrow> (False, orig)
             | c # r \<Rightarrow> if c = CHR ''-'' \<or> c = CHR ''+'' then (c = CHR ''-'', r) else (False, orig))
      in if s = ''0'' then Some 0
         else if s = [] then None
         else case parse_parts fm 0 s of
           None \<Rightarrow> None
         | Some d \<Rightarrow>
             if neg then Some (- int d)
             else if d > 2 ^ 63 - 1 then None
             else Some (int d))"

section \<open>The handlers\<close>

definition sendMainMenu :: "chat_id \<Rightarrow> world \<Rightarrow> world" where
  "sendMainMenu c w = Send c MsgMainMenu w"

text \<open>\<^verbatim>\<open>os.ReadFile\<close> fails on a missing file, and when the surroundings say so.\<close>

definition sendLogs :: "env \<Rightarrow> chat_id \<Rightarrow> world \<Rightarrow> world" where
  "sendLogs e c w =
     (case (if read_ok e then logfile w else None) of
        None \<Rightarrow> Send c MsgLogsEmpty w
      | Some data \<Rightarrow> if length data = 0 then Send c MsgLogsEmpty w else Send c (MsgLogs data) w)"

text \<open>
  \<^verbatim>\<open>handleTimerSetup(chatID, input)\<close>. The lookup of a missing key gives a nil pointer
  and \<^verbatim>\<open>timer.Name\<close> panics: the result \<open>None\<close>.
\<close>

definition handleTimerSetup :: "fracmul \<Rightarrow> chat_id \<Rightarrow> string \<Rightarrow> world \<Rightarrow> world option" where
  "handleTimerSetup fm c input w =
     (case activeTimers w c of
        None \<Rightarrow> None
      | Some a \<Rightarrow>
          let timer = heap w a
          in if Name timer = []
             then Some (Send c MsgAskMinutes (w\<lparr>heap := (heap w)(a := timer\<lparr>Name := input\<rparr>)\<rparr>))
             else (case ParseDuration fm (input @ ''m'') of
                     None \<Rightarrow> Some (Send c MsgBadMinutes w)
                   | Some d \<Rightarrow>
                       Some (Send c (MsgAskConfirm (Name timer) d)
                               (w\<lparr>heap := (heap w)(a := timer\<lparr>Duration := d\<rparr>)\<rparr>))))"

definition handleMessage :: "fracmul \<Rightarrow> env \<Rightarrow> chat_id \<Rightarrow> string \<Rightarrow> world \<Rightarrow> world option" where
  "handleMessage fm e c txt w =
     (if txt = ''/start'' then Some (sendMainMenu c w)
      else if txt = ''/logs'' then Some (sendLogs e c w)
      else (case activeTimers w c of
              None \<Rightarrow> Some (Send c MsgUseButtons w)
            | Some a \<Rightarrow>
                if Duration (heap w a) = 0 then handleTimerSetup fm c txt w
                else Some (Send c MsgUseButtons w)))"

text \<open>
  \<^verbatim>\<open>startTimer(chatID)\<close>. The goroutine it starts gets the chat id and the duration,
  and joins the sleeping countdowns.
\<close>

definition startTimer :: "env \<Rightarrow> chat_id \<Rightarrow> world \<Rightarrow> world" where
  "startTimer e c w =
     (case activeTimers w c of
        None \<Rightarrow> Send c MsgNotConfigured w
      | Some a \<Rightarrow>
          if Name (heap w a) = [] \<or> Duration (heap w a) = 0 then Send c MsgNotConfigured w
          else let w1 = w\<lparr>heap := (heap w)(a := (heap w a)\<lparr>StartTime := now e\<rparr>)\<rparr>;
                   timer = heap w1 a;
                   w2 = logTimer e timer act_Zapusk w1;
                   w3 = Send c (MsgStarted (Name timer) (Duration timer)) w2
               in w3\<lparr>pending := pending w3 @ [\<lparr>cd_chat = c, cd_sleep = Duration timer\<rparr>]\<rparr>)"

text \<open>
  \<^verbatim>\<open>stopTimer(chatID, auto)\<close> in its two parts: what runs between \<^verbatim>\<open>mu.Lock()\<close> and
  \<^verbatim>\<open>mu.Unlock()\<close>, which leaves the local \<^verbatim>\<open>timer\<close> (nil when the key is missing),
  and the \<^verbatim>\<open>bot.Send\<close> after the unlock.
\<close>

definition stopTimer_locked :: "env \<Rightarrow> chat_id \<Rightarrow> world \<Rightarrow> addr option \<times> world" where
  "stopTimer_locked e c w =
     (case activeTimers w c of
        None \<Rightarrow> (None, w)
      | Some a \<Rightarrow>
          let w1 = w\<lparr>heap := (heap w)(a := (heap w a)\<lparr>StopTime := Some (now e)\<rparr>)\<rparr>;
              w2 = logTimer e (heap w1 a) act_Ostanovlen w1
          in (Some a, w2\<lparr>activeTimers := (activeTimers w2)(c := None)\<rparr>))"

definition stopTimer_report :: "chat_id \<Rightarrow> bool \<Rightarrow> addr option \<Rightarrow> world \<Rightarrow> world" where
  "stopTimer_report c auto r w =
     (case r of
        None \<Rightarrow> Send c MsgNoActiveTimer w
      | Some a \<Rightarrow> Send c (MsgStopped (Name (heap w a)) auto) w)"

definition stopTimer :: "env \<Rightarrow> chat_id \<Rightarrow> bool \<Rightarrow> world \<Rightarrow> world" where
  "stopTimer e c auto w =
     (case stopTimer_locked e c w of (r, w') \<Rightarrow> stopTimer_report c auto r w')"

definition handleCallback :: "env \<Rightarrow> chat_id \<Rightarrow> string \<Rightarrow> world \<Rightarrow> world" where
  "handleCallback e c data w =
     (if data = ''start_timer''
      then let w1 = Send c MsgAskName w; a = nextAddr w1
           in w1\<lparr>heap := (heap w1)(a := emptyTimer), nextAddr := Suc a,
                 activeTimers := (activeTimers w1)(c \<mapsto> a)\<rparr>
      else if data = ''show_logs'' then sendLogs e c w
      else if data = ''confirm_timer'' then startTimer e c w
      else if data = ''stop_timer'' then stopTimer e c False w
      else w)"

subsection \<open>The countdown goroutine\<close>

text \<open>
  After \<^verbatim>\<open>time.Sleep(duration)\<close> the goroutine looks the chat id up under the lock and,
  when a key is there, calls \<^verbatim>\<open>stopTimer(chatID, true)\<close>. How long the sleep takes is
  not part of the model: a sleeping countdown may wake at any later step.
\<close>

definition countdown_check :: "chat_id \<Rightarrow> world \<Rightarrow> bool" where
  "countdown_check c w \<longleftrightarrow> activeTimers w c \<noteq> None"

definition countdown_wake :: "env \<Rightarrow> countdown \<Rightarrow> world \<Rightarrow> world" where
  "countdown_wake e cd w =
     (if countdown_check (cd_chat cd) w then stopTimer e (cd_chat cd) True w else w)"

text \<open>The \<open>i\<close>-th sleeping countdown wakes, runs to its end and is gone.\<close>

definition countdown_fire :: "env \<Rightarrow> nat \<Rightarrow> world \<Rightarrow> world" where
  "countdown_fire e i w =
     (if i < length (pending w)
      then countdown_wake e (pending w ! i)
             (w\<lparr>pending := take i (pending w) @ drop (Suc i) (pending w)\<rparr>)
      else w)"

subsection \<open>The loop of \<^verbatim>\<open>main\<close>\<close>

datatype update = CallbackQuery chat_id string | Message chat_id string | OtherUpdate

definition handleUpdate :: "fracmul \<Rightarrow> env \<Rightarrow> update \<Rightarrow> world \<Rightarrow> world option" where
  "handleUpdate fm e u w =
     (case u of
        CallbackQuery c data \<Rightarrow> Some (handleCallback e c data w)
      | Message c txt \<Rightarrow> handleMessage fm e c txt w
      | OtherUpdate \<Rightarrow> Some w)"

text \<open>
  What can happen next: the loop handles an update, or a sleeping countdown wakes.
  A run is a sequence of such events, each taken as a whole; \<open>None\<close> is a panic.
\<close>

datatype event = Update env update | Expire env nat

fun step :: "fracmul \<Rightarrow> event \<Rightarrow> world \<Rightarrow> world option" where
  "step fm (Update e u) w = handleUpdate fm e u w"
| "step fm (Expire e i) w = Some (countdown_fire e i w)"

fun run :: "fracmul \<Rightarrow> event list \<Rightarrow> world \<Rightarrow> world option" where
  "run fm [] w = Some w"
| "run fm (ev # evs) w = (case step fm ev w of None \<Rightarrow> None | Some w' \<Rightarrow> run fm evs w')"

definition reachable :: "fracmul \<Rightarrow> world \<Rightarrow> bool" where
  "reachable fm w \<longleftrightarrow> (\<exists>evs. run fm evs init_world = Some w)"

subsection \<open>A manual stop and a woken countdown, interleaved\<close>

text \<open>
  The loop of \<^verbatim>\<open>main\<close> and a countdown goroutine run concurrently. Both parts of
  \<^verbatim>\<open>stopTimer\<close> that touch the table hold \<^verbatim>\<open>mu\<close>, and so does the check of the
  goroutine: each is one step that no other holder of the lock can interrupt. A call of
  \<^verbatim>\<open>stopTimer\<close> is at one of three places: before \<^verbatim>\<open>mu.Lock()\<close>, after
  \<^verbatim>\<open>mu.Unlock()\<close> with its local \<^verbatim>\<open>timer\<close> and before \<^verbatim>\<open>bot.Send\<close>, or returned.
\<close>

datatype stop_pc = AtLock | AtSend "addr option" | Returned

fun stopTimer_step :: "env \<Rightarrow> chat_id \<Rightarrow> bool \<Rightarrow> stop_pc \<times> world \<Rightarrow> stop_pc \<times> world" where
  "stopTimer_step e c auto (AtLock, w) =
     (case stopTimer_locked e c w of (r, w') \<Rightarrow> (AtSend r, w'))"
| "stopTimer_step e c auto (AtSend r, w) = (Returned, stopTimer_report c auto r w)"
| "stopTimer_step e c auto (Returned, w) = (Returned, w)"

text \<open>The goroutine after its sleep: at the check, inside \<^verbatim>\<open>stopTimer(chatID, true)\<close>, or ended.\<close>

datatype countdown_pc = AtCheck | InStopTimer stop_pc | Ended

fun countdown_step :: "env \<Rightarrow> chat_id \<Rightarrow> countdown_pc \<times> world \<Rightarrow> countdown_pc \<times> world" where
  "countdown_step e c (AtCheck, w) =
     (if countdown_check c w then (InStopTimer AtLock, w) else (Ended, w))"
| "countdown_step e c (InStopTimer p, w) =
     (case stopTimer_step e c True (p, w) of
        (Returned, w') \<Rightarrow> (Ended, w')
      | (p', w') \<Rightarrow> (InStopTimer p', w'))"
| "countdown_step e c (Ended, w) = (Ended, w)"

text \<open>
  One step of the two together, for the chat \<open>c\<close>: the manual \<^verbatim>\<open>stopTimer(c, false)\<close>
  (clock and file outcome \<open>em\<close>) moves, or the woken countdown (\<open>ea\<close>) moves.
\<close>

inductive race_step :: "env \<Rightarrow> env \<Rightarrow> chat_id \<Rightarrow> stop_pc \<times> countdown_pc \<times> world \<Rightarrow>
    stop_pc \<times> countdown_pc \<times> world \<Rightarrow> bool"
  for em ea c where
  manual: "m \<noteq> Returned \<Longrightarrow> stopTimer_step em c False (m, w) = (m', w') \<Longrightarrow>
     race_step em ea c (m, g, w) (m', g, w')"
| countdown: "g \<noteq> Ended \<Longrightarrow> countdown_step ea c (g, w) = (g', w') \<Longrightarrow>
     race_step em ea c (m, g, w) (m, g', w')"

section \<open>The states of the specification\<close>

text \<open>
  The specification names the states of a session by the fields of its Timer:
  NAMING (entry exists, name empty), SIZING (name set, duration zero), ARMED (duration
  positive, start time unset), RUNNING (start time set, stop time unset). An unset
  \<^verbatim>\<open>time.Time\<close> is the zero value.
\<close>

definition in_NAMING :: "world \<Rightarrow> chat_id \<Rightarrow> bool" where
  "in_NAMING w c \<longleftrightarrow> (case activeTimers w c of None \<Rightarrow> False | Some a \<Rightarrow> Name (heap w a) = [])"

definition in_SIZING :: "world \<Rightarrow> chat_id \<Rightarrow> bool" where
  "in_SIZING w c \<longleftrightarrow>
     (case activeTimers w c of
        None \<Rightarrow> False
      | Some a \<Rightarrow> Name (heap w a) \<noteq> [] \<and> Duration (heap w a) = 0)"


definition in_RUNNING :: "world \<Rightarrow> chat_id \<Rightarrow> bool" where
  "in_RUNNING w c \<longleftrightarrow>
     (case activeTimers w c of
        None \<Rightarrow> False
      | Some a \<Rightarrow> StartTime (heap w a) \<noteq> zeroTime \<and> StopTime (heap w a) = None)"





text \<open>What the file holds; a missing file holds nothing.\<close>

definition content :: "world \<Rightarrow> string" where
  "content w = (case logfile w of None \<Rightarrow> [] | Some bytes \<Rightarrow> bytes)"

section \<open>An invariant of the runs\<close>

text \<open>
  Every Timer in the table was allocated, has no stop time, and has a name and a nonzero
  duration once its start time is set; no two chats share a Timer; no descriptor of the
  log file stays open.
\<close>

definition wf_world :: "world \<Rightarrow> bool" where
  "wf_world w \<longleftrightarrow>
     (\<forall>c a. activeTimers w c = Some a \<longrightarrow>
        a < nextAddr w \<and> StopTime (heap w a) = None \<and>
        (StartTime (heap w a) \<noteq> zeroTime \<longrightarrow> Name (heap w a) \<noteq> [] \<and> Duration (heap w a) \<noteq> 0)) \<and>
     (\<forall>c c' a. activeTimers w c = Some a \<longrightarrow> activeTimers w c' = Some a \<longrightarrow> c = c') \<and>
     open_files w = 0"

section \<open>Sample inputs\<close>

definition clock1 :: Time where
  "clock1 = \<lparr>t_year = 2024, t_month = 3, t_day = 9, t_hour = 14, t_minute = 5, t_second = 0\<rparr>"

definition clock2 :: Time where
  "clock2 = \<lparr>t_year = 2024, t_month = 3, t_day = 9, t_hour = 14, t_minute = 7, t_second = 30\<rparr>"

definition env_at :: "Time \<Rightarrow> env" where
  "env_at t = \<lparr>now = t, log_io = IO_OK, read_ok = True\<rparr>"

text \<open>
  The floating-point expression \<^verbatim>\<open>uint64(float64(f) * (float64(unit) / scale))\<close> in
  IEEE 754 double precision, computed on integers. \<open>round53 num den\<close> is the double
  nearest to \<open>num / den\<close> (ties to even) as a 53-bit mantissa and a binary exponent; the
  conversion of \<open>f\<close>, the quotient and the product are each rounded once, and the
  conversion to \<^verbatim>\<open>uint64\<close> truncates. The units and the powers of ten up to
  \<open>10 ^ 19\<close> are doubles themselves.
\<close>

fun bit_length :: "nat \<Rightarrow> nat" where
  "bit_length n = (if n = 0 then 0 else Suc (bit_length (n div 2)))"

declare bit_length.simps [simp del]

definition round53 :: "nat \<Rightarrow> nat \<Rightarrow> nat \<times> int" where
  "round53 num den =
     (let e0 = int (bit_length num) - int (bit_length den);
          e = (if (if 0 \<le> e0 then den * 2 ^ nat e0 \<le> num else den \<le> num * 2 ^ nat (- e0))
               then e0 else e0 - 1);
          s = 52 - e;
          n2 = (if 0 \<le> s then num * 2 ^ nat s else num);
          d2 = (if 0 \<le> s then den else den * 2 ^ nat (- s));
          qt = n2 div d2;
          rm = n2 mod d2;
          m = (if 2 * rm < d2 then qt else if d2 < 2 * rm then qt + 1 else qt + qt mod 2)
      in (m, - s))"

definition go_fracmul :: fracmul where
  "go_fracmul f unit scale =
     (case round53 f 1 of (mf, ef) \<Rightarrow>
      case round53 unit scale of (mq, eq) \<Rightarrow>
      case (if 0 \<le> ef + eq then round53 (mf * mq * 2 ^ nat (ef + eq)) 1
            else round53 (mf * mq) (2 ^ nat (- (ef + eq)))) of (mp, ep) \<Rightarrow>
        if 0 \<le> ep then mp * 2 ^ nat ep else mp div 2 ^ nat (- ep))"

definition chat :: chat_id where
  "chat = 42"

text \<open>Begin the setup, then send two texts: the name and the minutes.\<close>

definition setup_events :: "string \<Rightarrow> string \<Rightarrow> event list" where
  "setup_events name minutes =
     [Update (env_at clock1) (CallbackQuery chat ''start_timer''),
      Update (env_at clock1) (Message chat name),
      Update (env_at clock1) (Message chat minutes)]"

definition press :: "Time \<Rightarrow> string \<Rightarrow> event" where
  "press t button = Update (env_at t) (CallbackQuery chat button)"

text \<open>A session in SIZING: the setup begun and a name sent.\<close>

definition sizing_world :: world where
  "sizing_world = the (run go_fracmul
     [press clock1 ''start_timer'', Update (env_at clock1) (Message chat ''Brew'')] init_world)"

text \<open>A session whose text for the minutes was \<^verbatim>\<open>-5\<close>, and a session confirmed once.\<close>

definition negative_world :: world where
  "negative_world = the (run go_fracmul (setup_events ''A'' ''-5'') init_world)"

text \<open>A session in ARMED: name \<^verbatim>\<open>Brew\<close>, two minutes, not yet confirmed.\<close>

definition armed_world :: world where
  "armed_world = the (run go_fracmul (setup_events ''Brew'' ''2'') init_world)"

definition running_world :: world where
  "running_world = the (run go_fracmul
     (setup_events ''Brew'' ''2'' @ [press clock1 ''confirm_timer'']) init_world)"

text \<open>A world seen without its log file and diagnostics; surroundings whose file fails.\<close>

definition without_log :: "world \<Rightarrow> world" where
  "without_log w = w\<lparr>logfile := None, diag := []\<rparr>"

definition env_failing :: "Time \<Rightarrow> io_outcome \<Rightarrow> env" where
  "env_failing t io = \<lparr>now = t, log_io = io, read_ok = True\<rparr>"




section \<open>Properties of the log sink and of the runs\<close>

lemma go_fracmul_samples:
  "go_fracmul 5 60000000000 10 = 30000000000"
  "go_fracmul 46532285710000 60000000000 100000000000000 = 27919371425"
  by (simp_all add: go_fracmul_def round53_def Let_def bit_length.simps)

lemma logTimer_keeps:
  "activeTimers (logTimer e t act w) = activeTimers w"
  "heap (logTimer e t act w) = heap w"
  "nextAddr (logTimer e t act w) = nextAddr w"
  "sent (logTimer e t act w) = sent w"
  "pending (logTimer e t act w) = pending w"
  "open_files (logTimer e t act w) = open_files w"
  by (auto simp: logTimer_def OpenFile_def WriteString_def Close_def Println_def Let_def
      split: option.splits io_outcome.splits prod.splits bool.splits if_splits)

lemma logTimer_ok:
  assumes "log_io e = IO_OK"
  shows "logfile (logTimer e t act w) = Some (content w @ log_entry t act)"
    and "diag (logTimer e t act w) = diag w"
  using assms
  by (auto simp: logTimer_def OpenFile_def WriteString_def Close_def Println_def Let_def
      write_bytes_def content_def split: option.splits)

lemma logTimer_open_fails:
  assumes "log_io e = OpenFails"
  shows "logfile (logTimer e t act w) = logfile w"
    and "diag (logTimer e t act w) = diag w @ [DiagOpenError]"
  using assms
  by (auto simp: logTimer_def OpenFile_def Println_def Let_def)

lemma logTimer_write_fails:
  assumes "log_io e = WriteFails n"
  shows "logfile (logTimer e t act w) = Some (content w @ take n (log_entry t act))"
    and "diag (logTimer e t act w) = diag w @ [DiagWriteError]"
  using assms
  by (auto simp: logTimer_def OpenFile_def WriteString_def Close_def Println_def Let_def
      write_bytes_def content_def split: option.splits)




lemma decimal_nonempty: "decimal n \<noteq> []"
  by (subst decimal.simps) simp





lemma Format_zeroTime: "Format zeroTime = ''0001-01-01 00:00:00''"
  by code_simp






lemma wf_init: "wf_world init_world"
  by (simp add: wf_world_def init_world_def)

lemma wf_logTimer: "wf_world w \<Longrightarrow> wf_world (logTimer e t act w)"
  by (simp add: wf_world_def logTimer_keeps)

lemma wf_Send: "wf_world w \<Longrightarrow> wf_world (Send c m w)"
  by (simp add: wf_world_def Send_def)

lemma wf_sendLogs: "wf_world w \<Longrightarrow> wf_world (sendLogs e c w)"
  by (auto simp: sendLogs_def wf_Send split: option.splits)

lemma wf_startTimer: "wf_world w \<Longrightarrow> wf_world (startTimer e c w)"
  unfolding startTimer_def Let_def
  by (auto simp: wf_Send wf_world_def logTimer_keeps Send_def split: option.splits)

lemma wf_stopTimer: "wf_world w \<Longrightarrow> wf_world (stopTimer e c auto w)"
  unfolding stopTimer_def stopTimer_locked_def stopTimer_report_def Let_def
  by (auto simp: wf_Send wf_world_def logTimer_keeps Send_def split: option.splits)

lemma wf_begin_setup:
  "wf_world w \<Longrightarrow> wf_world (handleCallback e c ''start_timer'' w)"
  unfolding handleCallback_def Let_def
  by (auto simp: wf_world_def Send_def emptyTimer_def less_Suc_eq)

lemma wf_handleCallback: "wf_world w \<Longrightarrow> wf_world (handleCallback e c data w)"
proof (cases "data = ''start_timer''")
  case True
  assume "wf_world w"
  with True show ?thesis by (simp add: wf_begin_setup)
next
  case False
  assume "wf_world w"
  with False show ?thesis
    by (simp add: handleCallback_def wf_sendLogs wf_startTimer wf_stopTimer)
qed

lemma wf_handleTimerSetup:
  "wf_world w \<Longrightarrow> Duration (heap w a) = 0 \<Longrightarrow> activeTimers w c = Some a \<Longrightarrow>
   handleTimerSetup fm c txt w = Some w' \<Longrightarrow> wf_world w'"
  unfolding handleTimerSetup_def Let_def
  by (auto simp: wf_Send wf_world_def Send_def split: option.splits if_splits)

lemma wf_handleMessage:
  "wf_world w \<Longrightarrow> handleMessage fm e c txt w = Some w' \<Longrightarrow> wf_world w'"
  unfolding handleMessage_def sendMainMenu_def
  by (auto simp: wf_Send wf_sendLogs wf_handleTimerSetup split: option.splits if_splits)

lemma wf_countdown_fire: "wf_world w \<Longrightarrow> wf_world (countdown_fire e i w)"
proof -
  assume w: "wf_world w"
  have "wf_world (w\<lparr>pending := ps\<rparr>)" for ps using w by (simp add: wf_world_def)
  then show ?thesis by (simp add: countdown_fire_def countdown_wake_def wf_stopTimer w)
qed

lemma wf_step: "wf_world w \<Longrightarrow> step fm ev w = Some w' \<Longrightarrow> wf_world w'"
  by (cases ev)
    (auto simp: handleUpdate_def wf_handleCallback wf_countdown_fire
      dest: wf_handleMessage split: update.splits)

lemma wf_run: "wf_world w \<Longrightarrow> run fm evs w = Some w' \<Longrightarrow> wf_world w'"
  by (induction evs arbitrary: w) (auto split: option.splits dest: wf_step)

lemma reachable_wf: "reachable fm w \<Longrightarrow> wf_world w"
  using wf_run [OF wf_init] by (auto simp: reachable_def)

lemma handleMessage_no_panic: "\<exists>w'. handleMessage fm e c txt w = Some w'"
  by (auto simp: handleMessage_def handleTimerSetup_def Let_def split: option.splits)

lemma step_no_panic: "\<exists>w'. step fm ev w = Some w'"
proof (cases ev)
  case (Update e u)
  then show ?thesis
    using handleMessage_no_panic by (cases u) (simp_all add: handleUpdate_def)
next
  case (Expire e i)
  then show ?thesis by simp
qed

lemma run_no_panic: "\<exists>w'. run fm evs w = Some w'"
proof (induction evs arbitrary: w)
  case Nil
  show ?case by simp
next
  case (Cons ev evs)
  obtain w1 where "step fm ev w = Some w1" using step_no_panic by blast
  with Cons show ?case by simp
qed

lemma logTimer_commute:
  "logTimer e t act (w\<lparr>heap := h\<rparr>) = (logTimer e t act w)\<lparr>heap := h\<rparr>"
  "logTimer e t act (w\<lparr>sent := ms\<rparr>) = (logTimer e t act w)\<lparr>sent := ms\<rparr>"
  "logTimer e t act (w\<lparr>pending := ps\<rparr>) = (logTimer e t act w)\<lparr>pending := ps\<rparr>"
  "logTimer e t act (w\<lparr>activeTimers := tab\<rparr>) = (logTimer e t act w)\<lparr>activeTimers := tab\<rparr>"
  by (auto simp: logTimer_def OpenFile_def WriteString_def Close_def Println_def Let_def
      split: option.splits io_outcome.splits)

lemma stopTimer_present:
  assumes "activeTimers w c = Some a"
  shows "activeTimers (stopTimer e c auto w) = (activeTimers w)(c := None)"
    and "heap (stopTimer e c auto w) = (heap w)(a := (heap w a)\<lparr>StopTime := Some (now e)\<rparr>)"
    and "sent (stopTimer e c auto w) = sent w @ [(c, MsgStopped (Name (heap w a)) auto)]"
    and "logfile (stopTimer e c auto w) =
           logfile (logTimer e ((heap w a)\<lparr>StopTime := Some (now e)\<rparr>) act_Ostanovlen w)"
    and "diag (stopTimer e c auto w) =
           diag (logTimer e ((heap w a)\<lparr>StopTime := Some (now e)\<rparr>) act_Ostanovlen w)"
    and "pending (stopTimer e c auto w) = pending w"
    and "nextAddr (stopTimer e c auto w) = nextAddr w"
    and "open_files (stopTimer e c auto w) = open_files w"
  using assms
  by (simp_all add: stopTimer_def stopTimer_locked_def stopTimer_report_def Let_def Send_def
      logTimer_keeps logTimer_commute)

lemma reachable_run: "reachable fm (the (run fm evs init_world))"
proof -
  obtain w where "run fm evs init_world = Some w" using run_no_panic by blast
  then show ?thesis by (auto simp: reachable_def)
qed

lemma logTimer_modulo_log:
  "(logTimer e t act w)\<lparr>logfile := lf, diag := dg\<rparr> = w\<lparr>logfile := lf, diag := dg\<rparr>"
  by (auto simp: logTimer_def OpenFile_def WriteString_def Close_def Println_def Let_def
      split: option.splits io_outcome.splits)

lemma startTimer_refused:
  assumes "activeTimers w c = None \<or>
    (\<exists>a. activeTimers w c = Some a \<and> (Name (heap w a) = [] \<or> Duration (heap w a) = 0))"
  shows "startTimer e c w = w\<lparr>sent := sent w @ [(c, MsgNotConfigured)]\<rparr>"
  using assms by (auto simp: startTimer_def Send_def)

lemma startTimer_accepted:
  assumes "activeTimers w c = Some a" and "Name (heap w a) \<noteq> []" and "Duration (heap w a) \<noteq> 0"
  shows "activeTimers (startTimer e c w) = activeTimers w"
    and "heap (startTimer e c w) = (heap w)(a := (heap w a)\<lparr>StartTime := now e\<rparr>)"
    and "sent (startTimer e c w) =
           sent w @ [(c, MsgStarted (Name (heap w a)) (Duration (heap w a)))]"
    and "pending (startTimer e c w) =
           pending w @ [\<lparr>cd_chat = c, cd_sleep = Duration (heap w a)\<rparr>]"
    and "logfile (startTimer e c w) =
           logfile (logTimer e ((heap w a)\<lparr>StartTime := now e\<rparr>) act_Zapusk w)"
    and "diag (startTimer e c w) =
           diag (logTimer e ((heap w a)\<lparr>StartTime := now e\<rparr>) act_Zapusk w)"
    and "nextAddr (startTimer e c w) = nextAddr w"
    and "open_files (startTimer e c w) = open_files w"
  using assms
  by (simp_all add: startTimer_def Let_def Send_def logTimer_keeps logTimer_commute)

lemma logTimer_diag_failed:
  assumes "log_io e \<noteq> IO_OK"
  shows "diag (logTimer e t act w) =
    diag w @ [case log_io e of OpenFails \<Rightarrow> DiagOpenError | _ \<Rightarrow> DiagWriteError]"
  using assms
  by (cases "log_io e") (simp_all add: logTimer_open_fails logTimer_write_fails)

lemma without_log_eqI:
  assumes "activeTimers w = activeTimers w'" "heap w = heap w'" "nextAddr w = nextAddr w'"
    "open_files w = open_files w'" "sent w = sent w'" "pending w = pending w'"
  shows "without_log w = without_log w'"
  using assms by (cases w, cases w') (simp add: without_log_def)

lemma startTimer_without_log:
  "without_log (startTimer e c w) = without_log (startTimer (e\<lparr>log_io := io\<rparr>) c w)"
proof (cases "\<exists>a. activeTimers w c = Some a \<and> Name (heap w a) \<noteq> [] \<and> Duration (heap w a) \<noteq> 0")
  case True
  then obtain a where a: "activeTimers w c = Some a" "Name (heap w a) \<noteq> []" "Duration (heap w a) \<noteq> 0"
    by blast
  show ?thesis
    by (rule without_log_eqI) (simp_all add: startTimer_accepted [OF a])
next
  case False
  then have "activeTimers w c = None \<or>
    (\<exists>a. activeTimers w c = Some a \<and> (Name (heap w a) = [] \<or> Duration (heap w a) = 0))"
    by (cases "activeTimers w c") auto
  then show ?thesis by (simp add: startTimer_refused)
qed

lemma stopTimer_without_log:
  "without_log (stopTimer e c auto w) = without_log (stopTimer (e\<lparr>log_io := io\<rparr>) c auto w)"
proof (cases "activeTimers w c")
  case None
  then show ?thesis
    by (simp add: stopTimer_def stopTimer_locked_def stopTimer_report_def)
next
  case (Some a)
  show ?thesis
    by (rule without_log_eqI) (simp_all add: stopTimer_present [OF Some])
qed

lemma run_snoc:
  "run fm (evs @ [ev]) w = (case run fm evs w of None \<Rightarrow> None | Some w' \<Rightarrow> step fm ev w')"
  by (induction evs arbitrary: w) (auto split: option.splits)

lemma reachable_step: "reachable fm w \<Longrightarrow> step fm ev w = Some w' \<Longrightarrow> reachable fm w'"
proof -
  assume "reachable fm w" and s: "step fm ev w = Some w'"
  then obtain evs where "run fm evs init_world = Some w" by (auto simp: reachable_def)
  with s have "run fm (evs @ [ev]) init_world = Some w'" by (simp add: run_snoc)
  then show ?thesis unfolding reachable_def by blast
qed

lemma reachable_callback:
  "reachable fm w \<Longrightarrow> reachable fm (handleCallback e c data w)"
  by (rule reachable_step [where ev = "Update e (CallbackQuery c data)"])
    (simp_all add: handleUpdate_def)









section \<open>Stop with nothing to stop\<close>

text \<open>
  Claim C5. For a session with no Timer in the table, the Stop operation (the button
  \<^verbatim>\<open>stop_timer\<close>, that is \<^verbatim>\<open>stopTimer(chatID, false)\<close>, and likewise a call with
  \<^verbatim>\<open>auto = true\<close>) only sends the notice that no timer is active: the log file, the
  diagnostic channel, the table and the heap of Timers stay as they were.
\<close>

theorem stop_without_timer:
  assumes "activeTimers w c = None"
  shows "stopTimer e c auto w = w\<lparr>sent := sent w @ [(c, MsgNoActiveTimer)]\<rparr> \<and>
         handleCallback e c ''stop_timer'' w = w\<lparr>sent := sent w @ [(c, MsgNoActiveTimer)]\<rparr> \<and>
         logfile (stopTimer e c auto w) = logfile w \<and>
         diag (stopTimer e c auto w) = diag w \<and>
         activeTimers (stopTimer e c auto w) = activeTimers w \<and>
         heap (stopTimer e c auto w) = heap w"
  using assms
  by (simp add: handleCallback_def stopTimer_def stopTimer_locked_def stopTimer_report_def Send_def)

theorem stop_without_timer_witness:
  "activeTimers init_world chat = None \<and>
   stopTimer (env_at clock1) chat False init_world = init_world\<lparr>sent := [(chat, MsgNoActiveTimer)]\<rparr> \<and>
   logfile (stopTimer (env_at clock1) chat False init_world) = None"
  using stop_without_timer [of init_world chat "env_at clock1" False]
  by (simp add: init_world_def)

section \<open>Stop before the timer ever ran\<close>

text \<open>
  Claim C10, amended. For a session whose stored Timer never entered RUNNING (it is in
  NAMING or SIZING and its start time is unset), the Stop operation succeeds all the same:
  the stop time is set, the entry leaves the table and completion is reported; when the
  log file can be opened and written, the stop line appended to it has the zero timestamp
  \<^verbatim>\<open>0001-01-01 00:00:00\<close> in its start field.
\<close>

theorem stop_before_running:
  assumes "activeTimers w c = Some a"
    and "StartTime (heap w a) = zeroTime"
    and "in_NAMING w c \<or> in_SIZING w c"
  shows "\<not> in_RUNNING w c \<and>
         activeTimers (handleCallback e c ''stop_timer'' w) = (activeTimers w)(c := None) \<and>
         StopTime (heap (handleCallback e c ''stop_timer'' w) a) = Some (now e) \<and>
         sent (handleCallback e c ''stop_timer'' w) =
           sent w @ [(c, MsgStopped (Name (heap w a)) False)] \<and>
         (log_io e = IO_OK \<longrightarrow>
            logfile (handleCallback e c ''stop_timer'' w) =
              Some (content w @ act_Ostanovlen @ '' | '' @ txt_Nazvanie @ '': '' @ Name (heap w a) @
                '' | '' @ txt_Nachalo @ '': 0001-01-01 00:00:00 | '' @ txt_Okonchanie @ '': '' @
                Format (now e) @ [newline]))"
proof -
  have cb: "handleCallback e c ''stop_timer'' w = stopTimer e c False w"
    by (simp add: handleCallback_def)
  have "\<not> in_RUNNING w c"
    using assms(1,2) by (simp add: in_RUNNING_def)
  moreover have "log_io e = IO_OK \<Longrightarrow>
      logfile (stopTimer e c False w) =
        Some (content w @ log_entry ((heap w a)\<lparr>StopTime := Some (now e)\<rparr>) act_Ostanovlen)"
    by (simp add: stopTimer_present(4) [OF assms(1)] logTimer_ok)
  ultimately show ?thesis
    using assms(2) by (simp add: cb stopTimer_present [OF assms(1)] log_entry_def Format_zeroTime)
qed

theorem stop_before_running_witness:
  "activeTimers sizing_world chat = Some 0 \<and>
   StartTime (heap sizing_world 0) = zeroTime \<and>
   in_SIZING sizing_world chat \<and>
   activeTimers (handleCallback (env_at clock2) chat ''stop_timer'' sizing_world) chat = None \<and>
   sent (handleCallback (env_at clock2) chat ''stop_timer'' sizing_world) =
     sent sizing_world @ [(chat, MsgStopped ''Brew'' False)] \<and>
   logfile (handleCallback (env_at clock2) chat ''stop_timer'' sizing_world) =
     Some (act_Ostanovlen @ '' | '' @ txt_Nazvanie @ '': Brew | '' @ txt_Nachalo @
       '': 0001-01-01 00:00:00 | '' @ txt_Okonchanie @ '': 2024-03-09 14:07:30'' @ [newline])"
proof -
  have h1: "activeTimers sizing_world chat = Some 0" by code_simp
  have h2: "StartTime (heap sizing_world 0) = zeroTime" by code_simp
  have h3: "in_SIZING sizing_world chat" by code_simp
  have n: "Name (heap sizing_world 0) = ''Brew''" by code_simp
  have c: "content sizing_world = []" by code_simp
  have f: "Format clock2 = ''2024-03-09 14:07:30''" by code_simp
  from stop_before_running [OF h1 h2 disjI2 [OF h3], of "env_at clock2"] h1 h2 h3
  show ?thesis by (simp add: n c f env_at_def)
qed

text \<open>
  The claim as written has the stop line appended at every such Stop. When the file
  cannot be opened, the Stop on the session in SIZING completes and is reported, and the
  log file is still missing.
\<close>

theorem stop_before_running_counterexample:
  "activeTimers sizing_world chat = Some 0 \<and>
   in_SIZING sizing_world chat \<and>
   StartTime (heap sizing_world 0) = zeroTime \<and>
   logfile sizing_world = None \<and>
   activeTimers (handleCallback (env_failing clock2 OpenFails) chat ''stop_timer'' sizing_world) chat = None \<and>
   StopTime (heap (handleCallback (env_failing clock2 OpenFails) chat ''stop_timer'' sizing_world) 0) =
     Some clock2 \<and>
   sent (handleCallback (env_failing clock2 OpenFails) chat ''stop_timer'' sizing_world) =
     sent sizing_world @ [(chat, MsgStopped ''Brew'' False)] \<and>
   logfile (handleCallback (env_failing clock2 OpenFails) chat ''stop_timer'' sizing_world) = None \<and>
   diag (handleCallback (env_failing clock2 OpenFails) chat ''stop_timer'' sizing_world) =
     [DiagOpenError]"
  by code_simp

section \<open>The guard of Confirm\<close>

text \<open>
  Claim C2, amended. The Confirm transition (the button \<^verbatim>\<open>confirm_timer\<close>, that is
  \<^verbatim>\<open>startTimer\<close>) fails with the not-configured notice and no other change of state
  unless a Timer exists for the session, its name is not empty and its duration is not
  zero (the code tests \<^verbatim>\<open>Duration == 0\<close>, so a negative duration passes). When it
  fails, no start time is set and nothing is logged. When it succeeds, the start time
  becomes the clock reading and, when the log file can be opened and written, the log
  grows by exactly one start line; when the file cannot be opened the log stays as it is.
\<close>

theorem confirm_guard:
  "(activeTimers w c = None \<or>
      (\<exists>a. activeTimers w c = Some a \<and> (Name (heap w a) = [] \<or> Duration (heap w a) = 0))
    \<longrightarrow> handleCallback e c ''confirm_timer'' w = w\<lparr>sent := sent w @ [(c, MsgNotConfigured)]\<rparr>) \<and>
   (\<forall>a. activeTimers w c = Some a \<and> Name (heap w a) \<noteq> [] \<and> Duration (heap w a) \<noteq> 0
    \<longrightarrow> heap (handleCallback e c ''confirm_timer'' w) =
          (heap w)(a := (heap w a)\<lparr>StartTime := now e\<rparr>) \<and>
        activeTimers (handleCallback e c ''confirm_timer'' w) = activeTimers w \<and>
        sent (handleCallback e c ''confirm_timer'' w) =
          sent w @ [(c, MsgStarted (Name (heap w a)) (Duration (heap w a)))] \<and>
        (log_io e = IO_OK \<longrightarrow>
           logfile (handleCallback e c ''confirm_timer'' w) =
             Some (content w @ act_Zapusk @ '' | '' @ txt_Nazvanie @ '': '' @ Name (heap w a) @
               '' | '' @ txt_Nachalo @ '': '' @ Format (now e) @ '' | '' @ txt_Okonchanie @ '': '' @
               (case StopTime (heap w a) of None \<Rightarrow> txt_V_processe | Some u \<Rightarrow> Format u) @
               [newline])) \<and>
        (log_io e = OpenFails \<longrightarrow>
           logfile (handleCallback e c ''confirm_timer'' w) = logfile w))"
proof -
  have cb: "handleCallback e c ''confirm_timer'' w = startTimer e c w"
    by (simp add: handleCallback_def)
  have line: "log_entry ((heap w a)\<lparr>StartTime := now e\<rparr>) act_Zapusk =
      act_Zapusk @ '' | '' @ txt_Nazvanie @ '': '' @ Name (heap w a) @
        '' | '' @ txt_Nachalo @ '': '' @ Format (now e) @ '' | '' @ txt_Okonchanie @ '': '' @
        (case StopTime (heap w a) of None \<Rightarrow> txt_V_processe | Some u \<Rightarrow> Format u) @
        [newline]" for a
    by (simp add: log_entry_def)
  show ?thesis
    unfolding cb
    by (intro conjI impI allI; (elim conjE)?)
      (simp_all add: startTimer_refused startTimer_accepted logTimer_ok logTimer_open_fails
        line del: append_assoc)
qed

text \<open>
  The theorem at two sessions: one in SIZING, where Confirm is refused, and one whose
  duration is \<open>-5\<close> minutes, where it is accepted.
\<close>

theorem confirm_guard_witness:
  "activeTimers sizing_world chat = Some 0 \<and> Duration (heap sizing_world 0) = 0 \<and>
   handleCallback (env_at clock2) chat ''confirm_timer'' sizing_world =
     sizing_world\<lparr>sent := sent sizing_world @ [(chat, MsgNotConfigured)]\<rparr> \<and>
   activeTimers negative_world chat = Some 0 \<and> Name (heap negative_world 0) = ''A'' \<and>
   Duration (heap negative_world 0) = - 300000000000 \<and>
   StartTime (heap (handleCallback (env_at clock2) chat ''confirm_timer'' negative_world) 0) = clock2 \<and>
   logfile (handleCallback (env_at clock2) chat ''confirm_timer'' negative_world) =
     Some (content negative_world @ act_Zapusk @ '' | '' @ txt_Nazvanie @ '': '' @ ''A'' @
       '' | '' @ txt_Nachalo @ '': '' @ Format clock2 @ '' | '' @ txt_Okonchanie @ '': '' @
       txt_V_processe @ [newline])"
proof -
  have s1: "activeTimers sizing_world chat = Some 0" by code_simp
  have s2: "Duration (heap sizing_world 0) = 0" by code_simp
  have n1: "activeTimers negative_world chat = Some 0" by code_simp
  have n2: "Name (heap negative_world 0) = ''A''" by code_simp
  have n3: "Duration (heap negative_world 0) = - 300000000000" by code_simp
  have n4: "StopTime (heap negative_world 0) = None" by code_simp
  have io: "log_io (env_at clock2) = IO_OK" and nw: "now (env_at clock2) = clock2"
    by (simp_all add: env_at_def)
  have refused: "activeTimers sizing_world chat = None \<or>
      (\<exists>a. activeTimers sizing_world chat = Some a \<and>
           (Name (heap sizing_world a) = [] \<or> Duration (heap sizing_world a) = 0))"
    using s1 s2 by simp
  have accepted: "activeTimers negative_world chat = Some 0 \<and>
      Name (heap negative_world 0) \<noteq> [] \<and> Duration (heap negative_world 0) \<noteq> 0"
    using n1 n2 n3 by simp
  note r = confirm_guard [of sizing_world chat "env_at clock2", THEN conjunct1, rule_format,
      OF refused]
  note g = confirm_guard [of negative_world chat "env_at clock2", THEN conjunct2, rule_format,
      OF accepted]
  from g have "heap (handleCallback (env_at clock2) chat ''confirm_timer'' negative_world) 0 =
      (heap negative_world 0)\<lparr>StartTime := clock2\<rparr>"
    by (simp add: nw)
  then have st: "StartTime (heap (handleCallback (env_at clock2) chat ''confirm_timer''
      negative_world) 0) = clock2"
    by simp
  from g io have "logfile (handleCallback (env_at clock2) chat ''confirm_timer'' negative_world) =
      Some (content negative_world @ act_Zapusk @ '' | '' @ txt_Nazvanie @ '': '' @
        Name (heap negative_world 0) @
        '' | '' @ txt_Nachalo @ '': '' @ Format (now (env_at clock2)) @ '' | '' @
        txt_Okonchanie @ '': '' @
        (case StopTime (heap negative_world 0) of None \<Rightarrow> txt_V_processe
         | Some u \<Rightarrow> Format u) @ [newline])"
    by blast
  then have lg: "logfile (handleCallback (env_at clock2) chat ''confirm_timer'' negative_world) =
     Some (content negative_world @ act_Zapusk @ '' | '' @ txt_Nazvanie @ '': '' @ ''A'' @
       '' | '' @ txt_Nachalo @ '': '' @ Format clock2 @ '' | '' @ txt_Okonchanie @ '': '' @
       txt_V_processe @ [newline])"
    by (simp only: nw n2 n4 option.case)
  from s1 s2 r n1 n2 n3 st lg show ?thesis by blast
qed

text \<open>
  The claim as written asks for a positive duration and has every accepted Confirm
  append a start line. The texts \<^verbatim>\<open>A\<close> and \<^verbatim>\<open>-5\<close> lead to a Timer of \<open>-5\<close>
  minutes; Confirm then sets the start time and writes a start line. And on the session
  armed with two minutes, a Confirm while the file cannot be opened sets the start time and
  reports the start, and the log file is still missing.
\<close>

theorem confirm_positive_duration_counterexample:
  "activeTimers negative_world chat = Some 0 \<and>
   Name (heap negative_world 0) = ''A'' \<and>
   \<not> 0 < Duration (heap negative_world 0) \<and>
   StartTime (heap negative_world 0) = zeroTime \<and>
   logfile negative_world = None \<and>
   StartTime (heap (handleCallback (env_at clock2) chat ''confirm_timer'' negative_world) 0) = clock2 \<and>
   logfile (handleCallback (env_at clock2) chat ''confirm_timer'' negative_world) =
     Some (act_Zapusk @ '' | '' @ txt_Nazvanie @ '': A | '' @ txt_Nachalo @
       '': 2024-03-09 14:07:30 | '' @ txt_Okonchanie @ '': '' @ txt_V_processe @ [newline]) \<and>
   sent (handleCallback (env_at clock2) chat ''confirm_timer'' negative_world) =
     sent negative_world @ [(chat, MsgStarted ''A'' (- 300000000000))] \<and>
   activeTimers armed_world chat = Some 0 \<and>
   Name (heap armed_world 0) = ''Brew'' \<and>
   Duration (heap armed_world 0) = 120000000000 \<and>
   logfile armed_world = None \<and>
   StartTime (heap (handleCallback (env_failing clock2 OpenFails) chat ''confirm_timer'' armed_world) 0) =
     clock2 \<and>
   sent (handleCallback (env_failing clock2 OpenFails) chat ''confirm_timer'' armed_world) =
     sent armed_world @ [(chat, MsgStarted ''Brew'' 120000000000)] \<and>
   logfile (handleCallback (env_failing clock2 OpenFails) chat ''confirm_timer'' armed_world) = None"
  by code_simp

section \<open>A log file that cannot be opened or written\<close>

text \<open>
  Claim C7. When opening or writing the log file fails during a start or a stop, the
  failure is recorded once on the diagnostic channel and nothing else differs from the
  run where the file works: the start time is set, the started message is sent and the
  countdown is scheduled; the stop time is set, the entry leaves the table and the
  stopped message is sent.
\<close>

theorem log_failure_swallowed:
  assumes "log_io e \<noteq> IO_OK" and "activeTimers w c = Some a"
  shows "(Name (heap w a) \<noteq> [] \<and> Duration (heap w a) \<noteq> 0 \<longrightarrow>
            diag (startTimer e c w) =
              diag w @ [case log_io e of OpenFails \<Rightarrow> DiagOpenError | _ \<Rightarrow> DiagWriteError] \<and>
            StartTime (heap (startTimer e c w) a) = now e \<and>
            sent (startTimer e c w) =
              sent w @ [(c, MsgStarted (Name (heap w a)) (Duration (heap w a)))] \<and>
            pending (startTimer e c w) =
              pending w @ [\<lparr>cd_chat = c, cd_sleep = Duration (heap w a)\<rparr>] \<and>
            without_log (startTimer e c w) = without_log (startTimer (e\<lparr>log_io := IO_OK\<rparr>) c w)) \<and>
         diag (stopTimer e c auto w) =
           diag w @ [case log_io e of OpenFails \<Rightarrow> DiagOpenError | _ \<Rightarrow> DiagWriteError] \<and>
         StopTime (heap (stopTimer e c auto w) a) = Some (now e) \<and>
         activeTimers (stopTimer e c auto w) = (activeTimers w)(c := None) \<and>
         sent (stopTimer e c auto w) = sent w @ [(c, MsgStopped (Name (heap w a)) auto)] \<and>
         without_log (stopTimer e c auto w) = without_log (stopTimer (e\<lparr>log_io := IO_OK\<rparr>) c auto w)"
proof -
  have start: "without_log (startTimer e c w) = without_log (startTimer (e\<lparr>log_io := IO_OK\<rparr>) c w)"
    by (rule startTimer_without_log)
  have stop: "without_log (stopTimer e c auto w) = without_log (stopTimer (e\<lparr>log_io := IO_OK\<rparr>) c auto w)"
    by (rule stopTimer_without_log)
  show ?thesis
    using assms(1) start stop
    by (simp add: startTimer_accepted [OF assms(2)] stopTimer_present [OF assms(2)]
        logTimer_diag_failed)
qed

text \<open>The theorem at a running session, for a failing open and a failing write.\<close>

theorem log_failure_swallowed_witness:
  "log_io (env_failing clock2 OpenFails) \<noteq> IO_OK \<and>
   activeTimers running_world chat = Some 0 \<and>
   diag (stopTimer (env_failing clock2 OpenFails) chat False running_world) = [DiagOpenError] \<and>
   StopTime (heap (stopTimer (env_failing clock2 OpenFails) chat False running_world) 0) = Some clock2 \<and>
   activeTimers (stopTimer (env_failing clock2 OpenFails) chat False running_world) chat = None \<and>
   sent (stopTimer (env_failing clock2 OpenFails) chat False running_world) =
     sent running_world @ [(chat, MsgStopped ''Brew'' False)] \<and>
   diag (startTimer (env_failing clock2 (WriteFails 3)) chat running_world) = [DiagWriteError] \<and>
   StartTime (heap (startTimer (env_failing clock2 (WriteFails 3)) chat running_world) 0) = clock2"
proof -
  have h1: "log_io (env_failing clock2 OpenFails) \<noteq> IO_OK" by (simp add: env_failing_def)
  have h1': "log_io (env_failing clock2 (WriteFails 3)) \<noteq> IO_OK" by (simp add: env_failing_def)
  have h2: "activeTimers running_world chat = Some 0" by code_simp
  have n: "Name (heap running_world 0) = ''Brew''" by code_simp
  have d: "Duration (heap running_world 0) \<noteq> 0" by code_simp
  have g: "diag running_world = []" by code_simp
  from log_failure_swallowed [OF h1 h2, of False] log_failure_swallowed [OF h1' h2, of False]
    h1 h2 n d g
  show ?thesis by (simp add: env_failing_def)
qed

section \<open>Confirm on a timer that already runs\<close>

text \<open>
  Claim C9, amended. In every state the program can reach, a Confirm on a session whose
  timer is RUNNING (start time set, entry in the table) is accepted again: the guard asks
  only for an entry, a name and a nonzero duration, which a running timer has. The start
  time is overwritten with the new clock reading and one more countdown for the same
  session is scheduled; when the log file can be opened and written, a further start
  line, with the in-progress marker, is appended to it, and when the file cannot be
  opened the log stays as it is.
\<close>

theorem confirm_while_running:
  assumes "reachable fm w" and "in_RUNNING w c"
  shows "\<exists>a. activeTimers w c = Some a \<and>
           Name (heap w a) \<noteq> [] \<and> Duration (heap w a) \<noteq> 0 \<and>
           heap (handleCallback e c ''confirm_timer'' w) =
             (heap w)(a := (heap w a)\<lparr>StartTime := now e\<rparr>) \<and>
           activeTimers (handleCallback e c ''confirm_timer'' w) = activeTimers w \<and>
           sent (handleCallback e c ''confirm_timer'' w) =
             sent w @ [(c, MsgStarted (Name (heap w a)) (Duration (heap w a)))] \<and>
           pending (handleCallback e c ''confirm_timer'' w) =
             pending w @ [\<lparr>cd_chat = c, cd_sleep = Duration (heap w a)\<rparr>] \<and>
           (log_io e = IO_OK \<longrightarrow>
              logfile (handleCallback e c ''confirm_timer'' w) =
                Some (content w @ act_Zapusk @ '' | '' @ txt_Nazvanie @ '': '' @ Name (heap w a) @
                  '' | '' @ txt_Nachalo @ '': '' @ Format (now e) @ '' | '' @ txt_Okonchanie @
                  '': '' @ txt_V_processe @ [newline])) \<and>
           (log_io e = OpenFails \<longrightarrow>
              logfile (handleCallback e c ''confirm_timer'' w) = logfile w)"
proof -
  from assms(2) obtain a where a: "activeTimers w c = Some a"
    and st: "StartTime (heap w a) \<noteq> zeroTime"
    by (auto simp: in_RUNNING_def split: option.splits)
  from reachable_wf [OF assms(1)] a st
  have nd: "Name (heap w a) \<noteq> []" "Duration (heap w a) \<noteq> 0"
    and sp: "StopTime (heap w a) = None"
    by (auto simp: wf_world_def)
  have cb: "handleCallback e c ''confirm_timer'' w = startTimer e c w"
    by (simp add: handleCallback_def)
  have line: "log_entry ((heap w a)\<lparr>StartTime := now e\<rparr>) act_Zapusk =
      act_Zapusk @ '' | '' @ txt_Nazvanie @ '': '' @ Name (heap w a) @
        '' | '' @ txt_Nachalo @ '': '' @ Format (now e) @ '' | '' @ txt_Okonchanie @
        '': '' @ txt_V_processe @ [newline]"
    by (simp add: log_entry_def sp)
  show ?thesis
    unfolding cb using a nd
    by (simp add: startTimer_accepted [OF a nd] logTimer_ok logTimer_open_fails line
        del: append_assoc)
qed

text \<open>The theorem at a session confirmed once: after the second Confirm two countdowns sleep.\<close>

theorem confirm_while_running_witness:
  "reachable go_fracmul running_world \<and> in_RUNNING running_world chat \<and>
   pending running_world = [\<lparr>cd_chat = chat, cd_sleep = 120000000000\<rparr>] \<and>
   StartTime (heap running_world 0) = clock1 \<and>
   StartTime (heap (handleCallback (env_at clock2) chat ''confirm_timer'' running_world) 0) = clock2 \<and>
   pending (handleCallback (env_at clock2) chat ''confirm_timer'' running_world) =
     [\<lparr>cd_chat = chat, cd_sleep = 120000000000\<rparr>, \<lparr>cd_chat = chat, cd_sleep = 120000000000\<rparr>] \<and>
   logfile (handleCallback (env_at clock2) chat ''confirm_timer'' running_world) =
     Some (content running_world @ act_Zapusk @ '' | '' @ txt_Nazvanie @ '': '' @ ''Brew'' @
       '' | '' @ txt_Nachalo @ '': '' @ Format clock2 @ '' | '' @ txt_Okonchanie @
       '': '' @ txt_V_processe @ [newline])"
proof -
  have r: "reachable go_fracmul running_world"
    unfolding running_world_def by (rule reachable_run)
  have h: "in_RUNNING running_world chat" by code_simp
  have a0: "activeTimers running_world chat = Some 0" by code_simp
  have p: "pending running_world = [\<lparr>cd_chat = chat, cd_sleep = 120000000000\<rparr>]" by code_simp
  have d: "Duration (heap running_world 0) = 120000000000" by code_simp
  have n: "Name (heap running_world 0) = ''Brew''" by code_simp
  have s: "StartTime (heap running_world 0) = clock1" by code_simp
  have io: "log_io (env_at clock2) = IO_OK" and nw: "now (env_at clock2) = clock2"
    by (simp_all add: env_at_def)
  from confirm_while_running [OF r h, of "env_at clock2"] a0
  have g: "heap (handleCallback (env_at clock2) chat ''confirm_timer'' running_world) =
             (heap running_world)(0 := (heap running_world 0)\<lparr>StartTime := now (env_at clock2)\<rparr>) \<and>
           pending (handleCallback (env_at clock2) chat ''confirm_timer'' running_world) =
             pending running_world @ [\<lparr>cd_chat = chat, cd_sleep = Duration (heap running_world 0)\<rparr>] \<and>
           (log_io (env_at clock2) = IO_OK \<longrightarrow>
              logfile (handleCallback (env_at clock2) chat ''confirm_timer'' running_world) =
                Some (content running_world @ act_Zapusk @ '' | '' @ txt_Nazvanie @ '': '' @
                  Name (heap running_world 0) @
                  '' | '' @ txt_Nachalo @ '': '' @ Format (now (env_at clock2)) @ '' | '' @
                  txt_Okonchanie @ '': '' @ txt_V_processe @ [newline]))"
    by auto
  from g have st: "StartTime (heap (handleCallback (env_at clock2) chat ''confirm_timer''
      running_world) 0) = clock2"
    by (simp add: nw)
  from g have pe: "pending (handleCallback (env_at clock2) chat ''confirm_timer'' running_world) =
     [\<lparr>cd_chat = chat, cd_sleep = 120000000000\<rparr>, \<lparr>cd_chat = chat, cd_sleep = 120000000000\<rparr>]"
    by (simp add: p d)
  from g io have "logfile (handleCallback (env_at clock2) chat ''confirm_timer'' running_world) =
      Some (content running_world @ act_Zapusk @ '' | '' @ txt_Nazvanie @ '': '' @
        Name (heap running_world 0) @
        '' | '' @ txt_Nachalo @ '': '' @ Format (now (env_at clock2)) @ '' | '' @
        txt_Okonchanie @ '': '' @ txt_V_processe @ [newline])"
    by blast
  then have lg: "logfile (handleCallback (env_at clock2) chat ''confirm_timer'' running_world) =
     Some (content running_world @ act_Zapusk @ '' | '' @ txt_Nazvanie @ '': '' @ ''Brew'' @
       '' | '' @ txt_Nachalo @ '': '' @ Format clock2 @ '' | '' @ txt_Okonchanie @
       '': '' @ txt_V_processe @ [newline])"
    by (simp only: nw n)
  from r h p s st pe lg show ?thesis by blast
qed

text \<open>
  The claim as written has a second start line appended at every such Confirm. On the
  session confirmed once, whose log holds one start line, a Confirm while the file cannot
  be opened overwrites the start time and schedules the second countdown, and the log
  still holds that one line.
\<close>

theorem confirm_while_running_counterexample:
  "in_RUNNING running_world chat \<and>
   StartTime (heap running_world 0) = clock1 \<and>
   logfile running_world =
     Some (act_Zapusk @ '' | '' @ txt_Nazvanie @ '': Brew | '' @ txt_Nachalo @
       '': 2024-03-09 14:05:00 | '' @ txt_Okonchanie @ '': '' @ txt_V_processe @ [newline]) \<and>
   StartTime (heap (handleCallback (env_failing clock2 OpenFails) chat ''confirm_timer''
     running_world) 0) = clock2 \<and>
   pending (handleCallback (env_failing clock2 OpenFails) chat ''confirm_timer'' running_world) =
     [\<lparr>cd_chat = chat, cd_sleep = 120000000000\<rparr>, \<lparr>cd_chat = chat, cd_sleep = 120000000000\<rparr>] \<and>
   sent (handleCallback (env_failing clock2 OpenFails) chat ''confirm_timer'' running_world) =
     sent running_world @ [(chat, MsgStarted ''Brew'' 120000000000)] \<and>
   logfile (handleCallback (env_failing clock2 OpenFails) chat ''confirm_timer'' running_world) =
     logfile running_world \<and>
   diag (handleCallback (env_failing clock2 OpenFails) chat ''confirm_timer'' running_world) =
     [DiagOpenError]"
  by code_simp

section \<open>One Timer per session\<close>

text \<open>
  Claim C8. In every state the program can reach, the table holds at most one Timer for
  a session, and no Timer belongs to two sessions. A BeginSetup (the button
  \<^verbatim>\<open>start_timer\<close>) puts a freshly allocated, empty Timer under the session's key: the
  key set grows by at most that key, and a Timer the session had before is no longer in
  the table.
\<close>

theorem one_timer_per_session:
  assumes "reachable fm w"
  shows "card {a. activeTimers w c = Some a} \<le> 1 \<and>
         (\<forall>c1 c2 a. activeTimers w c1 = Some a \<longrightarrow> activeTimers w c2 = Some a \<longrightarrow> c1 = c2) \<and>
         reachable fm (handleCallback e c ''start_timer'' w) \<and>
         activeTimers (handleCallback e c ''start_timer'' w) = (activeTimers w)(c \<mapsto> nextAddr w) \<and>
         heap (handleCallback e c ''start_timer'' w) (nextAddr w) = emptyTimer \<and>
         nextAddr w \<notin> ran (activeTimers w) \<and>
         dom (activeTimers (handleCallback e c ''start_timer'' w)) = insert c (dom (activeTimers w)) \<and>
         (\<forall>a. activeTimers w c = Some a \<longrightarrow>
              a \<notin> ran (activeTimers (handleCallback e c ''start_timer'' w)))"
proof -
  note wf = reachable_wf [OF assms]
  have card: "card {a. activeTimers w c = Some a} \<le> 1"
    by (cases "activeTimers w c") simp_all
  have inj: "\<forall>c1 c2 a. activeTimers w c1 = Some a \<longrightarrow> activeTimers w c2 = Some a \<longrightarrow> c1 = c2"
    using wf unfolding wf_world_def by blast
  have below: "activeTimers w c' = Some a \<Longrightarrow> a < nextAddr w" for c' a
    using wf unfolding wf_world_def by blast
  have tab: "activeTimers (handleCallback e c ''start_timer'' w) = (activeTimers w)(c \<mapsto> nextAddr w)"
    and hp: "heap (handleCallback e c ''start_timer'' w) (nextAddr w) = emptyTimer"
    by (simp_all add: handleCallback_def Let_def Send_def)
  have fresh: "nextAddr w \<notin> ran (activeTimers w)"
    using below by (fastforce simp: ran_def)
  have old: "a \<notin> ran (activeTimers (handleCallback e c ''start_timer'' w))"
    if a: "activeTimers w c = Some a" for a
  proof
    assume "a \<in> ran (activeTimers (handleCallback e c ''start_timer'' w))"
    then obtain c' where c': "((activeTimers w)(c \<mapsto> nextAddr w)) c' = Some a"
      unfolding tab by (auto simp: ran_def)
    show False
    proof (cases "c' = c")
      case True
      with c' have "nextAddr w = a" by simp
      with below [OF a] show False by simp
    next
      case False
      with c' have "activeTimers w c' = Some a" by simp
      with inj a have "c' = c" by blast
      with False show False by simp
    qed
  qed
  from card inj reachable_callback [OF assms] tab hp fresh old show ?thesis
    by (simp add: tab)
qed

text \<open>
  The theorem at a session in SIZING: a second BeginSetup replaces the Timer named
  \<^verbatim>\<open>Brew\<close> (address 0) by an empty one (address 1), and the key set is the same.
\<close>

theorem one_timer_per_session_witness:
  "reachable go_fracmul sizing_world \<and>
   activeTimers sizing_world chat = Some 0 \<and> Name (heap sizing_world 0) = ''Brew'' \<and>
   activeTimers (handleCallback (env_at clock2) chat ''start_timer'' sizing_world) chat = Some 1 \<and>
   heap (handleCallback (env_at clock2) chat ''start_timer'' sizing_world) 1 = emptyTimer \<and>
   0 \<notin> ran (activeTimers (handleCallback (env_at clock2) chat ''start_timer'' sizing_world)) \<and>
   dom (activeTimers (handleCallback (env_at clock2) chat ''start_timer'' sizing_world)) =
     dom (activeTimers sizing_world)"
proof -
  have r: "reachable go_fracmul sizing_world"
    unfolding sizing_world_def by (rule reachable_run)
  have a0: "activeTimers sizing_world chat = Some 0" by code_simp
  have n: "Name (heap sizing_world 0) = ''Brew''" by code_simp
  have nx: "nextAddr sizing_world = 1" by code_simp
  note t = one_timer_per_session [OF r, of chat "env_at clock2"]
  from t have tab: "activeTimers (handleCallback (env_at clock2) chat ''start_timer'' sizing_world) =
      (activeTimers sizing_world)(chat \<mapsto> 1)"
    by (simp add: nx)
  from t have hp: "heap (handleCallback (env_at clock2) chat ''start_timer'' sizing_world) 1 = emptyTimer"
    by (simp add: nx)
  from t a0 have old: "0 \<notin> ran (activeTimers (handleCallback (env_at clock2) chat ''start_timer'' sizing_world))"
    by blast
  from t a0 have dm: "dom (activeTimers (handleCallback (env_at clock2) chat ''start_timer'' sizing_world)) =
     dom (activeTimers sizing_world)"
    by (auto simp: insert_absorb)
  from r a0 n tab hp old dm show ?thesis by simp
qed

section \<open>The countdown\<close>




section \<open>The line written by the log sink\<close>




section \<open>The text for the minutes\<close>




end
